theory Spec2Isabelle
  imports Main
begin

section \<open>Certificate field verification of the XML-RPC SSL server\<close>

text \<open>
  A shallow embedding of \<^verbatim>\<open>SSLServer.verify_request\<close> and \<^verbatim>\<open>SSLServer.verify_peer\<close>
  of \<^verbatim>\<open>springpython/remoting/xmlrpc.py\<close>. Exceptions are values of a sum type, the
  logger and the socket are explicit state, and a message built with the \<^verbatim>\<open>%\<close> operator
  is kept as its template together with the tuple of arguments.
\<close>

subsection \<open>Values\<close>

text \<open>
  \<^verbatim>\<open>getpeercert()\<close> returns \<^verbatim>\<open>None\<close> or a dictionary. Its \<^verbatim>\<open>subject\<close> entry is a tuple
  of relative distinguished names, each of them a tuple of (name, value) pairs; any other
  entry is text. A dictionary is falsy when it is empty, a tuple or a string likewise.
\<close>

type_synonym rdn = "(string \<times> string) list"

datatype certval = Text string | Names "rdn list"

type_synonym pycert = "(string \<times> certval) list"

type_synonym addr = "string \<times> nat"

datatype exn =
    VerificationException message
  | IndexError
  | ValueError
  | TypeError
  | SSLError
and message = Fmt string "arg list"
and arg =
    AStr string
  | ADict "string \<rightharpoonup> string"
  | ACert "pycert option"
  | AAddr addr
  | ATraceback exn

datatype level = DEBUG | ERROR

text \<open>
  The server keeps the policy \<^verbatim>\<open>verify_fields\<close> (\<^verbatim>\<open>None\<close> when the keyword was not given,
  otherwise a dictionary, held as the list of its items in iteration order) and a logger:
  whether it is enabled for \<^verbatim>\<open>DEBUG\<close>, and the records handed to it so far.
\<close>

record server =
  verify_fields :: "(string \<times> string) list option"
  debug_enabled :: bool
  logger :: "(level \<times> message option) list"

text \<open>
  A wrapped socket: what \<^verbatim>\<open>getpeercert()\<close> does on this connection (it reads the state of
  the TLS session, and raises when that state cannot be read), and whether \<^verbatim>\<open>close()\<close> was
  called.
\<close>

record sock =
  peercert :: "exn + pycert option"
  closed :: bool

subsection \<open>Message templates\<close>

definition fmt_no_certificate :: string where
  "fmt_no_certificate =
     ''Couldn't verify fields, peer didn't send the certificate, from_addr='%s'' @ [CHR 0x27]"

definition fmt_verification_error :: string where
  "fmt_verification_error =
     ''Verification error='%s', cert='%s', from_addr='%s'' @ [CHR 0x27]"

definition fmt_verify_peer :: string where
  "fmt_verify_peer = ''verify_peer cert='%s'' @ [CHR 0x27]"

definition fmt_no_subject :: string where
  "fmt_no_subject =
     ''Peer certificate doesn't have the 'subject' field, cert='%s'' @ [CHR 0x27]"

definition fmt_field_not_sent :: string where
  "fmt_field_not_sent =
     ''Peer didn't send the '%s' field, subject fields received '%s'' @ [CHR 0x27]"

definition fmt_field_expected :: string where
  "fmt_field_expected =
     ''Expected the subject field '%s' to have value '%s' instead of '%s'' @ [CHR 0x27]"

subsection \<open>Truth values of Python objects\<close>

definition truthy_fields :: "(string \<times> string) list option \<Rightarrow> bool" where
  "truthy_fields vf = (case vf of None \<Rightarrow> False | Some P \<Rightarrow> P \<noteq> [])"

definition truthy_cert :: "pycert option \<Rightarrow> bool" where
  "truthy_cert c = (case c of None \<Rightarrow> False | Some d \<Rightarrow> d \<noteq> [])"

fun truthy_certval :: "certval \<Rightarrow> bool" where
  "truthy_certval (Text s) = (s \<noteq> [])"
| "truthy_certval (Names rs) = (rs \<noteq> [])"

definition truthy_value :: "string option \<Rightarrow> bool" where
  "truthy_value v = (case v of None \<Rightarrow> False | Some s \<Rightarrow> s \<noteq> [])"

subsection \<open>Logger and socket operations\<close>

definition logger_error :: "server \<Rightarrow> message option \<Rightarrow> server" where
  "logger_error self m = self\<lparr>logger := logger self @ [(ERROR, m)]\<rparr>"

definition logger_debug :: "server \<Rightarrow> message option \<Rightarrow> server" where
  "logger_debug self m = self\<lparr>logger := logger self @ [(DEBUG, m)]\<rparr>"

definition getpeercert :: "sock \<Rightarrow> exn + pycert option" where
  "getpeercert s = peercert s"

definition close :: "sock \<Rightarrow> sock" where
  "close s = s\<lparr>closed := True\<rparr>"

subsection \<open>verify\_peer\<close>

text \<open>
  \<^verbatim>\<open>dict(elem[0] for elem in subject)\<close>: the first pair of every name, \<^verbatim>\<open>IndexError\<close> at
  an empty name; in the dictionary a later pair replaces an earlier one with the same key.
  Iterating a string yields one-character strings, which \<^verbatim>\<open>dict\<close> refuses with
  \<^verbatim>\<open>ValueError\<close>.
\<close>

fun first_elems :: "rdn list \<Rightarrow> exn + (string \<times> string) list" where
  "first_elems [] = Inr []"
| "first_elems ([] # rest) = Inl IndexError"
| "first_elems ((p # ps) # rest) =
     (case first_elems rest of Inl e \<Rightarrow> Inl e | Inr qs \<Rightarrow> Inr (p # qs))"

definition dict :: "(string \<times> string) list \<Rightarrow> (string \<rightharpoonup> string)" where
  "dict ps = map_of (rev ps)"

fun subject_dict :: "certval \<Rightarrow> exn + (string \<rightharpoonup> string)" where
  "subject_dict (Names rs) =
     (case first_elems rs of Inl e \<Rightarrow> Inl e | Inr ps \<Rightarrow> Inr (dict ps))"
| "subject_dict (Text s) = (if s = [] then Inr Map.empty else Inl ValueError)"

text \<open>
  The loop over the policy (lines 128 to 143): the first field whose certificate value is
  falsy or differs from the expected value returns; falling out of the loop accepts.
\<close>

fun verify_loop ::
  "(string \<times> string) list \<Rightarrow> (string \<rightharpoonup> string) \<Rightarrow> bool \<times> message option" where
  "verify_loop [] subject = (True, None)"
| "verify_loop ((verify_field, expected_value) # rest) subject =
     (let cert_value = subject verify_field in
      if \<not> truthy_value cert_value then
        (False, Some (Fmt fmt_field_not_sent [AStr verify_field, ADict subject]))
      else if Some expected_value \<noteq> cert_value then
        (False, Some (Fmt fmt_field_expected
                        [AStr verify_field, AStr expected_value, ADict subject]))
      else verify_loop rest subject)"

text \<open>
  Lines 121 to 126: the subject is fetched, a falsy one raises, and the dictionary is
  built.
\<close>

definition get_subject :: "pycert \<Rightarrow> exn + (string \<rightharpoonup> string)" where
  "get_subject cert =
     (case map_of cert ''subject'' of
        None \<Rightarrow> Inl (VerificationException (Fmt fmt_no_subject [ACert (Some cert)]))
      | Some subject \<Rightarrow>
          if \<not> truthy_certval subject
          then Inl (VerificationException (Fmt fmt_no_subject [ACert (Some cert)]))
          else subject_dict subject)"

text \<open>
  \<^verbatim>\<open>verify_peer\<close> returns the pair (allowed, reason) or raises, and leaves the server with
  the debug record, if any. Iterating a policy that is \<^verbatim>\<open>None\<close> raises \<^verbatim>\<open>TypeError\<close>.
\<close>

definition verify_peer ::
  "server \<Rightarrow> pycert \<Rightarrow> (exn + bool \<times> message option) \<times> server" where
  "verify_peer self cert =
     (let self' = (if debug_enabled self
                   then logger_debug self (Some (Fmt fmt_verify_peer [ACert (Some cert)]))
                   else self)
      in case get_subject cert of
           Inl e \<Rightarrow> (Inl e, self')
         | Inr subject \<Rightarrow>
             (case verify_fields self of
                None \<Rightarrow> (Inl TypeError, self')
              | Some P \<Rightarrow> (Inr (verify_loop P subject), self')))"

subsection \<open>verify\_request\<close>

text \<open>
  The body of the \<^verbatim>\<open>try\<close> statement (lines 83 to 94). \<^verbatim>\<open>Inl e\<close> is the exception it
  raises, \<^verbatim>\<open>Inr False\<close> its \<^verbatim>\<open>return False\<close>, and \<^verbatim>\<open>Inr True\<close> stands for falling through
  to the \<^verbatim>\<open>return True\<close> of line 111.
\<close>

definition try_block :: "server \<Rightarrow> sock \<Rightarrow> addr \<Rightarrow> (exn + bool) \<times> server \<times> sock" where
  "try_block self s from_addr =
     (if truthy_fields (verify_fields self) then
        (case getpeercert s of
           Inl e \<Rightarrow> (Inl e, self, s)
         | Inr cert \<Rightarrow>
             (case cert of
                None \<Rightarrow>
                  (Inl (VerificationException (Fmt fmt_no_certificate [AAddr from_addr])),
                   self, s)
              | Some c \<Rightarrow>
                  if \<not> truthy_cert cert then
                    (Inl (VerificationException (Fmt fmt_no_certificate [AAddr from_addr])),
                     self, s)
                  else
                    (case verify_peer self c of
                       (Inl e, self') \<Rightarrow> (Inl e, self', s)
                     | (Inr (allow_peer, reason), self') \<Rightarrow>
                         if \<not> allow_peer
                         then (Inr False, logger_error self' reason, close s)
                         else (Inr True, self', s))))
      else (Inr True, self, s))"

text \<open>
  The \<^verbatim>\<open>except Exception\<close> clause (lines 96 to 109). The message is formatted first, and
  its second argument is a fresh call of \<^verbatim>\<open>sock.getpeercert()\<close>; an exception raised there
  leaves \<^verbatim>\<open>verify_request\<close> before anything is logged or closed.
\<close>

definition except_clause ::
  "exn \<Rightarrow> server \<Rightarrow> sock \<Rightarrow> addr \<Rightarrow> (exn + bool) \<times> server \<times> sock" where
  "except_clause e self s from_addr =
     (case getpeercert s of
        Inl e' \<Rightarrow> (Inl e', self, s)
      | Inr cert \<Rightarrow>
          (Inr False,
           logger_error self
             (Some (Fmt fmt_verification_error [ATraceback e, ACert cert, AAddr from_addr])),
           close s))"

definition verify_request ::
  "server \<Rightarrow> sock \<Rightarrow> addr \<Rightarrow> (exn + bool) \<times> server \<times> sock" where
  "verify_request self s from_addr =
     (case try_block self s from_addr of
        (Inl e, self', s') \<Rightarrow> except_clause e self' s' from_addr
      | (Inr b, self', s') \<Rightarrow> (Inr b, self', s'))"

text \<open>
  The accept loop of the base server calls \<^verbatim>\<open>verify_request\<close> once for every accepted
  connection, one after the other; an exception that leaves \<^verbatim>\<open>verify_request\<close> leaves the
  loop. The result lists every attempt made, with its outcome and its socket afterwards.
\<close>

fun verify_requests ::
  "server \<Rightarrow> (sock \<times> addr) list \<Rightarrow> ((exn + bool) \<times> sock) list \<times> server" where
  "verify_requests self [] = ([], self)"
| "verify_requests self ((s, from_addr) # rest) =
     (case verify_request self s from_addr of
        (Inl e, self', s') \<Rightarrow> ([(Inl e, s')], self')
      | (Inr b, self', s') \<Rightarrow>
          (case verify_requests self' rest of
             (rs, self'') \<Rightarrow> ((Inr b, s') # rs, self'')))"

text \<open>
  A policy field passes the loop when its certificate value is truthy and equal to the
  expected value.
\<close>

definition field_passes :: "(string \<rightharpoonup> string) \<Rightarrow> string \<times> string \<Rightarrow> bool" where
  "field_passes subject f =
     (truthy_value (subject (fst f)) \<and> subject (fst f) = Some (snd f))"

text \<open>The arguments a message was formatted with.\<close>

fun args_of :: "message \<Rightarrow> arg list" where
  "args_of (Fmt t as) = as"

section \<open>Properties\<close>

subsection \<open>The loop over the policy\<close>

lemmas model_defs =
  verify_request_def try_block_def except_clause_def verify_peer_def get_subject_def
  dict_def truthy_fields_def truthy_cert_def truthy_value_def logger_error_def
  logger_debug_def close_def getpeercert_def field_passes_def Let_def

lemma verify_loop_passes_prefix:
  "list_all (field_passes subject) pre \<Longrightarrow>
   verify_loop (pre @ rest) subject = verify_loop rest subject"
  by (induction pre) (auto simp: field_passes_def)

lemma verify_loop_all_pass:
  "list_all (field_passes subject) P \<Longrightarrow> verify_loop P subject = (True, None)"
  using verify_loop_passes_prefix [of subject P "[]"] by simp

lemma verify_loop_first_failure:
  "\<not> field_passes subject (k, e) \<Longrightarrow>
   verify_loop ((k, e) # post) subject =
     (False, Some (if \<not> truthy_value (subject k)
                   then Fmt fmt_field_not_sent [AStr k, ADict subject]
                   else Fmt fmt_field_expected [AStr k, AStr e, ADict subject]))"
  by (auto simp: field_passes_def)

lemma verify_loop_some_failure:
  "\<not> list_all (field_passes subject) P \<Longrightarrow> \<exists>r. verify_loop P subject = (False, Some r)"
  by (induction P) (auto simp: field_passes_def Let_def)

lemma verify_peer_result:
  "get_subject cert = Inr subject \<Longrightarrow> verify_fields self = Some P \<Longrightarrow>
   fst (verify_peer self cert) = Inr (verify_loop P subject)"
  by (simp add: verify_peer_def Let_def)

lemma verify_peer_state:
  "snd (verify_peer self cert) =
     (if debug_enabled self
      then logger_debug self (Some (Fmt fmt_verify_peer [ACert (Some cert)]))
      else self)"
  by (simp add: verify_peer_def Let_def split: sum.splits option.splits)

lemma get_subject_nonempty: "get_subject cert = Inr subject \<Longrightarrow> cert \<noteq> []"
  by (auto simp: get_subject_def)

subsection \<open>Rejections close the socket\<close>

lemma try_block_False_closed:
  "try_block self s a = (Inr False, self', s') \<Longrightarrow> closed s'"
  by (auto simp: try_block_def close_def split: if_splits sum.splits option.splits prod.splits)

lemma verify_request_False_closed:
  "verify_request self s a = (Inr False, self', s') \<Longrightarrow> closed s'"
  by (auto simp: verify_request_def except_clause_def close_def
           split: sum.splits prod.splits dest: try_block_False_closed)

lemma verify_requests_False_closed:
  "(r, s') \<in> set (fst (verify_requests self conns)) \<Longrightarrow> r = Inr False \<Longrightarrow> closed s'"
proof (induction conns arbitrary: self)
  case Nil
  then show ?case by simp
next
  case (Cons c conns)
  obtain s a where c: "c = (s, a)" by (cases c)
  obtain res self1 s1 where vr: "verify_request self s a = (res, self1, s1)"
    by (cases "verify_request self s a")
  show ?case
  proof (cases res)
    case (Inl e)
    with Cons.prems c vr show ?thesis by simp
  next
    case (Inr b)
    obtain rs self2 where rest: "verify_requests self1 conns = (rs, self2)"
      by (cases "verify_requests self1 conns")
    from Cons.prems c vr Inr rest
    consider "(r, s') = (Inr b, s1)" | "(r, s') \<in> set rs" by auto
    then show ?thesis
    proof cases
      case 1
      with Cons.prems(2) vr Inr show ?thesis
        using verify_request_False_closed [of self s a self1 s1] by simp
    next
      case 2
      with Cons.IH [of self1] rest Cons.prems(2) show ?thesis by simp
    qed
  qed
qed

text \<open>
  An exception raised by \<^verbatim>\<open>verify_peer\<close> (a certificate without subject, an empty name in
  the subject, a subject that is not a tuple of names) is caught: it is logged with the
  certificate and the peer address, the socket is closed and the request refused.
\<close>

lemma verify_request_verify_peer_raises:
  assumes "truthy_fields (verify_fields self)"
      and "getpeercert s = Inr (Some c)" and "c \<noteq> []"
      and "verify_peer self c = (Inl e, self')"
  shows "verify_request self s from_addr =
           (Inr False,
            logger_error self'
              (Some (Fmt fmt_verification_error [ATraceback e, ACert (Some c), AAddr from_addr])),
            close s)"
  using assms
  by (simp add: verify_request_def try_block_def except_clause_def truthy_cert_def)

text \<open>
  An exception raised by \<^verbatim>\<open>getpeercert()\<close> inside the \<^verbatim>\<open>try\<close> statement is caught as
  well, but the \<^verbatim>\<open>except\<close> clause asks the socket for the certificate once more and fails
  in the same way: the exception leaves \<^verbatim>\<open>verify_request\<close>, and server and socket are as
  they were.
\<close>

lemma verify_request_retrieval_raises:
  assumes "truthy_fields (verify_fields self)"
      and "getpeercert s = Inl e"
  shows "verify_request self s from_addr = (Inl e, self, s)"
  using assms
  by (simp add: verify_request_def try_block_def except_clause_def)

subsection \<open>Claims\<close>

text \<open>
  C1. The claim: with a non-empty policy, any exception raised while the peer certificate
  is retrieved or the policy evaluated is logged, the socket is closed and
  \<^verbatim>\<open>verify_request\<close> returns \<^verbatim>\<open>False\<close>, the exception never leaving \<^verbatim>\<open>verify_request\<close>.
  The code at a socket whose \<^verbatim>\<open>getpeercert()\<close> raises: the \<^verbatim>\<open>except\<close> clause calls
  \<^verbatim>\<open>sock.getpeercert()\<close> again to format its message, that call raises as the first did,
  and the exception leaves \<^verbatim>\<open>verify_request\<close> with nothing logged and the socket open.
\<close>

theorem verify_request_getpeercert_raises:
  "verify_request
     \<lparr>verify_fields = Some [(''OU'', ''eng'')], debug_enabled = False, logger = []\<rparr>
     \<lparr>peercert = Inl ValueError, closed = False\<rparr>
     (''192.0.2.7'', 40000)
   = (Inl ValueError,
      \<lparr>verify_fields = Some [(''OU'', ''eng'')], debug_enabled = False, logger = []\<rparr>,
      \<lparr>peercert = Inl ValueError, closed = False\<rparr>)"
  by (simp add: model_defs)

text \<open>
  C2. With an empty or absent policy \<^verbatim>\<open>verify_request\<close> returns \<^verbatim>\<open>True\<close> for every socket,
  also one whose certificate is absent or cannot be read: the certificate is not fetched,
  nothing is logged and the socket is left as it was.
\<close>

theorem verify_request_empty_policy:
  assumes "\<not> truthy_fields (verify_fields self)"
  shows "verify_request self s from_addr = (Inr True, self, s)"
  using assms by (simp add: verify_request_def try_block_def)

theorem verify_request_empty_policy_witness:
  "\<not> truthy_fields (verify_fields \<lparr>verify_fields = Some [], debug_enabled = True, logger = []\<rparr>)
   \<and> verify_request \<lparr>verify_fields = Some [], debug_enabled = True, logger = []\<rparr>
        \<lparr>peercert = Inl SSLError, closed = False\<rparr> (''192.0.2.7'', 40000)
     = (Inr True, \<lparr>verify_fields = Some [], debug_enabled = True, logger = []\<rparr>,
        \<lparr>peercert = Inl SSLError, closed = False\<rparr>)"
  using verify_request_empty_policy
    [of "\<lparr>verify_fields = Some [], debug_enabled = True, logger = []\<rparr>"
        "\<lparr>peercert = Inl SSLError, closed = False\<rparr>" "(''192.0.2.7'', 40000)"]
  by (simp add: truthy_fields_def)

text \<open>
  C3. With a non-empty policy, a peer whose \<^verbatim>\<open>getpeercert()\<close> is \<^verbatim>\<open>None\<close> or an empty
  dictionary is refused: \<^verbatim>\<open>verify_request\<close> returns \<^verbatim>\<open>False\<close>, the socket is closed, and
  the record logged carries the exception whose message says that the peer did not send
  the certificate.
\<close>

theorem verify_request_no_certificate:
  assumes "truthy_fields (verify_fields self)"
      and "getpeercert s = Inr cert"
      and "\<not> truthy_cert cert"
  shows "verify_request self s from_addr =
           (Inr False,
            logger_error self
              (Some (Fmt fmt_verification_error
                 [ATraceback (VerificationException (Fmt fmt_no_certificate [AAddr from_addr])),
                  ACert cert, AAddr from_addr])),
            close s)
         \<and> closed (close s)"
  using assms
  by (auto simp: verify_request_def try_block_def except_clause_def close_def
           split: option.splits)

theorem verify_request_no_certificate_witness:
  "verify_request
     \<lparr>verify_fields = Some [(''OU'', ''eng'')], debug_enabled = False, logger = []\<rparr>
     \<lparr>peercert = Inr None, closed = False\<rparr> (''192.0.2.7'', 40000)
   = (Inr False,
      \<lparr>verify_fields = Some [(''OU'', ''eng'')], debug_enabled = False,
        logger = [(ERROR, Some (Fmt fmt_verification_error
           [ATraceback (VerificationException
              (Fmt fmt_no_certificate [AAddr (''192.0.2.7'', 40000)])),
            ACert None, AAddr (''192.0.2.7'', 40000)]))]\<rparr>,
      \<lparr>peercert = Inr None, closed = True\<rparr>)"
  using verify_request_no_certificate
    [of "\<lparr>verify_fields = Some [(''OU'', ''eng'')], debug_enabled = False, logger = []\<rparr>"
        "\<lparr>peercert = Inr None, closed = False\<rparr>" None "(''192.0.2.7'', 40000)"]
  by (simp add: truthy_fields_def truthy_cert_def getpeercert_def logger_error_def close_def)

text \<open>
  C4, as amended. Let \<open>subject\<close> be the subject mapping built from the certificate. If a
  policy field is absent from it, \<^verbatim>\<open>verify_peer\<close> returns \<^verbatim>\<open>False\<close> with a reason; when
  every policy field before it in iteration order passes, that reason names the missing
  field and the whole subject mapping received.
\<close>

theorem verify_peer_absent_field:
  assumes "verify_fields self = Some (pre @ (k, e) # post)"
      and "get_subject cert = Inr subject"
      and "subject k = None"
  shows "(\<exists>r. fst (verify_peer self cert) = Inr (False, Some r)) \<and>
         (list_all (field_passes subject) pre \<longrightarrow>
            fst (verify_peer self cert) =
              Inr (False, Some (Fmt fmt_field_not_sent [AStr k, ADict subject])))"
proof -
  from assms(3) have fails: "\<not> field_passes subject (k, e)"
    by (simp add: field_passes_def truthy_value_def)
  then have "\<not> list_all (field_passes subject) (pre @ (k, e) # post)" by simp
  then have rejected: "\<exists>r. verify_loop (pre @ (k, e) # post) subject = (False, Some r)"
    by (rule verify_loop_some_failure)
  have named: "verify_loop (pre @ (k, e) # post) subject =
                 (False, Some (Fmt fmt_field_not_sent [AStr k, ADict subject]))"
    if "list_all (field_passes subject) pre"
    using that assms(3) verify_loop_passes_prefix [of subject pre "(k, e) # post"]
    by (simp add: truthy_value_def)
  from rejected named show ?thesis
    by (simp add: verify_peer_result [OF assms(2) assms(1)])
qed

theorem verify_peer_absent_field_witness:
  "fst (verify_peer
          \<lparr>verify_fields = Some [(''O'', ''Acme'')], debug_enabled = False, logger = []\<rparr>
          [(''subject'', Names [[(''CN'', ''host'')]])])
   = Inr (False, Some (Fmt fmt_field_not_sent
                         [AStr ''O'', ADict (dict [(''CN'', ''host'')])]))"
  using verify_peer_absent_field
    [of "\<lparr>verify_fields = Some [(''O'', ''Acme'')], debug_enabled = False, logger = []\<rparr>"
        "[]" "''O''" "''Acme''" "[]" "[(''subject'', Names [[(''CN'', ''host'')]])]"
        "dict [(''CN'', ''host'')]"]
  by (simp add: get_subject_def dict_def)

text \<open>
  The claim as stated fails where two policy fields are absent: policy O, OU against a
  subject that has only CN. The loop returns at O, and the reason does not name OU.
\<close>

theorem verify_peer_absent_field_counterexample:
  "fst (verify_peer
          \<lparr>verify_fields = Some [(''O'', ''Acme''), (''OU'', ''eng'')],
            debug_enabled = False, logger = []\<rparr>
          [(''subject'', Names [[(''CN'', ''host'')]])])
   = Inr (False, Some (Fmt fmt_field_not_sent
                         [AStr ''O'', ADict (dict [(''CN'', ''host'')])]))
   \<and> dict [(''CN'', ''host'')] ''OU'' = None
   \<and> AStr ''OU'' \<notin> set (args_of (Fmt fmt_field_not_sent
                         [AStr ''O'', ADict (dict [(''CN'', ''host'')])]))"
  by (simp add: model_defs)

text \<open>
  C5, as amended. If a policy field is present in the subject mapping with a non-empty
  value that differs from the expected one, \<^verbatim>\<open>verify_peer\<close> returns \<^verbatim>\<open>False\<close> with a
  reason; when every policy field before it in iteration order passes, that reason names
  the field and the expected value. Its last argument is the subject mapping.
\<close>

theorem verify_peer_value_differs:
  assumes "verify_fields self = Some (pre @ (k, e) # post)"
      and "get_subject cert = Inr subject"
      and "subject k = Some v" and "v \<noteq> []" and "v \<noteq> e"
  shows "(\<exists>r. fst (verify_peer self cert) = Inr (False, Some r)) \<and>
         (list_all (field_passes subject) pre \<longrightarrow>
            fst (verify_peer self cert) =
              Inr (False, Some (Fmt fmt_field_expected [AStr k, AStr e, ADict subject])))"
proof -
  from assms(3,5) have fails: "\<not> field_passes subject (k, e)"
    by (auto simp: field_passes_def)
  then have "\<not> list_all (field_passes subject) (pre @ (k, e) # post)" by simp
  then have rejected: "\<exists>r. verify_loop (pre @ (k, e) # post) subject = (False, Some r)"
    by (rule verify_loop_some_failure)
  have named: "verify_loop (pre @ (k, e) # post) subject =
                 (False, Some (Fmt fmt_field_expected [AStr k, AStr e, ADict subject]))"
    if "list_all (field_passes subject) pre"
    using that assms(3,4,5) verify_loop_passes_prefix [of subject pre "(k, e) # post"]
    by (auto simp: truthy_value_def)
  from rejected named show ?thesis
    by (simp add: verify_peer_result [OF assms(2) assms(1)])
qed

theorem verify_peer_value_differs_witness:
  "fst (verify_peer
          \<lparr>verify_fields = Some [(''O'', ''Acme'')], debug_enabled = False, logger = []\<rparr>
          [(''subject'', Names [[(''O'', ''Other'')]])])
   = Inr (False, Some (Fmt fmt_field_expected
                         [AStr ''O'', AStr ''Acme'', ADict (dict [(''O'', ''Other'')])]))"
  using verify_peer_value_differs
    [of "\<lparr>verify_fields = Some [(''O'', ''Acme'')], debug_enabled = False, logger = []\<rparr>"
        "[]" "''O''" "''Acme''" "[]" "[(''subject'', Names [[(''O'', ''Other'')]])]"
        "dict [(''O'', ''Other'')]" "''Other''"]
  by (simp add: get_subject_def dict_def)

text \<open>
  The claim as stated fails at two inputs. Policy O, OU against a subject whose O is the
  empty string and whose OU is ops: both values are present and differ from the expected
  ones, the loop returns at O through the branch for a missing field, and the reason names
  neither the expected value of O nor the field OU and its expected value. Policy O against
  a subject whose O is Other: the reason is formatted with the whole subject mapping where
  the received value would stand, and the value Other is not among its arguments.
\<close>

theorem verify_peer_value_differs_counterexample:
  "fst (verify_peer
          \<lparr>verify_fields = Some [(''O'', ''Acme''), (''OU'', ''eng'')],
            debug_enabled = False, logger = []\<rparr>
          [(''subject'', Names [[(''O'', [])], [(''OU'', ''ops'')]])])
   = Inr (False, Some (Fmt fmt_field_not_sent
                         [AStr ''O'', ADict (dict [(''O'', []), (''OU'', ''ops'')])]))
   \<and> AStr ''Acme'' \<notin> set (args_of (Fmt fmt_field_not_sent
                         [AStr ''O'', ADict (dict [(''O'', []), (''OU'', ''ops'')])]))
   \<and> AStr ''OU'' \<notin> set (args_of (Fmt fmt_field_not_sent
                         [AStr ''O'', ADict (dict [(''O'', []), (''OU'', ''ops'')])]))
   \<and> AStr ''eng'' \<notin> set (args_of (Fmt fmt_field_not_sent
                         [AStr ''O'', ADict (dict [(''O'', []), (''OU'', ''ops'')])]))
   \<and> fst (verify_peer
          \<lparr>verify_fields = Some [(''O'', ''Acme'')], debug_enabled = False, logger = []\<rparr>
          [(''subject'', Names [[(''O'', ''Other'')]])])
   = Inr (False, Some (Fmt fmt_field_expected
                         [AStr ''O'', AStr ''Acme'', ADict (dict [(''O'', ''Other'')])]))
   \<and> AStr ''Other'' \<notin> set (args_of (Fmt fmt_field_expected
                         [AStr ''O'', AStr ''Acme'', ADict (dict [(''O'', ''Other'')])]))"
  by (simp add: model_defs)

text \<open>
  C6, as amended. If every policy field is present in the subject mapping with a
  non-empty value equal to the expected one, \<^verbatim>\<open>verify_peer\<close> returns \<^verbatim>\<open>(True, None)\<close>, and
  \<^verbatim>\<open>verify_request\<close> on a socket presenting that certificate returns \<^verbatim>\<open>True\<close> and leaves the
  socket as it was.
\<close>

theorem verify_peer_all_fields_match:
  assumes "verify_fields self = Some P" and "P \<noteq> []"
      and "get_subject cert = Inr subject"
      and "\<forall>(k, e) \<in> set P. e \<noteq> [] \<and> subject k = Some e"
      and "getpeercert s = Inr (Some cert)"
  shows "fst (verify_peer self cert) = Inr (True, None) \<and>
         verify_request self s from_addr = (Inr True, snd (verify_peer self cert), s)"
proof -
  from assms(4) have "list_all (field_passes subject) P"
    by (auto simp: list_all_iff field_passes_def truthy_value_def)
  then have loop: "verify_loop P subject = (True, None)"
    by (rule verify_loop_all_pass)
  have peer: "fst (verify_peer self cert) = Inr (True, None)"
    by (simp add: verify_peer_result [OF assms(3) assms(1)] loop)
  then obtain self' where pair: "verify_peer self cert = (Inr (True, None), self')"
    by (cases "verify_peer self cert") auto
  have policy: "truthy_fields (verify_fields self)"
    using assms(1,2) by (simp add: truthy_fields_def)
  have cert: "truthy_cert (Some cert)"
    using get_subject_nonempty [OF assms(3)] by (simp add: truthy_cert_def)
  have "try_block self s from_addr = (Inr True, self', s)"
    using policy cert assms(5) by (simp add: try_block_def pair)
  with peer pair show ?thesis by (simp add: verify_request_def)
qed

theorem verify_peer_all_fields_match_witness:
  "fst (verify_peer
          \<lparr>verify_fields = Some [(''O'', ''Acme'')], debug_enabled = False, logger = []\<rparr>
          [(''subject'', Names [[(''O'', ''Acme'')], [(''CN'', ''host'')]])])
   = Inr (True, None)
   \<and> fst (verify_request
          \<lparr>verify_fields = Some [(''O'', ''Acme'')], debug_enabled = False, logger = []\<rparr>
          \<lparr>peercert = Inr (Some [(''subject'', Names [[(''O'', ''Acme'')], [(''CN'', ''host'')]])]),
            closed = False\<rparr>
          (''192.0.2.7'', 40000)) = Inr True
   \<and> snd (snd (verify_request
          \<lparr>verify_fields = Some [(''O'', ''Acme'')], debug_enabled = False, logger = []\<rparr>
          \<lparr>peercert = Inr (Some [(''subject'', Names [[(''O'', ''Acme'')], [(''CN'', ''host'')]])]),
            closed = False\<rparr>
          (''192.0.2.7'', 40000)))
     = \<lparr>peercert = Inr (Some [(''subject'', Names [[(''O'', ''Acme'')], [(''CN'', ''host'')]])]),
            closed = False\<rparr>"
  using verify_peer_all_fields_match
    [of "\<lparr>verify_fields = Some [(''O'', ''Acme'')], debug_enabled = False, logger = []\<rparr>"
        "[(''O'', ''Acme'')]"
        "[(''subject'', Names [[(''O'', ''Acme'')], [(''CN'', ''host'')]])]"
        "dict [(''O'', ''Acme''), (''CN'', ''host'')]"
        "\<lparr>peercert = Inr (Some [(''subject'', Names [[(''O'', ''Acme'')], [(''CN'', ''host'')]])]),
            closed = False\<rparr>"
        "(''192.0.2.7'', 40000)"]
  by (simp add: get_subject_def dict_def getpeercert_def)

text \<open>
  The claim as stated fails where the expected value is the empty string: policy O with
  expected value empty, against a subject whose O is empty. The field is present with the
  expected value, and the request is refused through the branch for a missing field.
\<close>

theorem verify_peer_all_fields_match_counterexample:
  "dict [(''O'', [])] ''O'' = Some []
   \<and> fst (verify_peer
          \<lparr>verify_fields = Some [(''O'', [])], debug_enabled = False, logger = []\<rparr>
          [(''subject'', Names [[(''O'', [])]])])
   = Inr (False, Some (Fmt fmt_field_not_sent [AStr ''O'', ADict (dict [(''O'', [])])]))
   \<and> fst (verify_request
          \<lparr>verify_fields = Some [(''O'', [])], debug_enabled = False, logger = []\<rparr>
          \<lparr>peercert = Inr (Some [(''subject'', Names [[(''O'', [])]])]), closed = False\<rparr>
          (''192.0.2.7'', 40000)) = Inr False"
  by (simp add: model_defs)

text \<open>
  C7. Whenever \<^verbatim>\<open>verify_request\<close> returns \<^verbatim>\<open>False\<close>, by the policy or by a caught exception,
  the socket it was given is closed; hence in any sequence of connection attempts every
  attempt that was refused has left its socket closed.
\<close>

theorem verify_request_reject_closes:
  "(verify_request self s from_addr = (Inr False, self', s') \<longrightarrow> closed s') \<and>
   (\<forall>(r, s'') \<in> set (fst (verify_requests self conns)). r = Inr False \<longrightarrow> closed s'')"
  using verify_request_False_closed [of self s from_addr self' s']
    verify_requests_False_closed [of _ _ self conns]
  by auto

theorem verify_request_reject_closes_witness:
  "map fst (fst (verify_requests
      \<lparr>verify_fields = Some [(''OU'', ''eng'')], debug_enabled = False, logger = []\<rparr>
      [(\<lparr>peercert = Inr None, closed = False\<rparr>, (''192.0.2.7'', 40000)),
       (\<lparr>peercert = Inr (Some [(''subject'', Names [[(''OU'', ''ops'')]])]), closed = False\<rparr>,
        (''192.0.2.8'', 40001)),
       (\<lparr>peercert = Inr (Some [(''notAfter'', Text ''Jan 1'')]), closed = False\<rparr>,
        (''192.0.2.9'', 40002))]))
   = [Inr False, Inr False, Inr False]
   \<and> list_all closed (map snd (fst (verify_requests
      \<lparr>verify_fields = Some [(''OU'', ''eng'')], debug_enabled = False, logger = []\<rparr>
      [(\<lparr>peercert = Inr None, closed = False\<rparr>, (''192.0.2.7'', 40000)),
       (\<lparr>peercert = Inr (Some [(''subject'', Names [[(''OU'', ''ops'')]])]), closed = False\<rparr>,
        (''192.0.2.8'', 40001)),
       (\<lparr>peercert = Inr (Some [(''notAfter'', Text ''Jan 1'')]), closed = False\<rparr>,
        (''192.0.2.9'', 40002))])))"
  using verify_request_reject_closes
    [of "\<lparr>verify_fields = Some [(''OU'', ''eng'')], debug_enabled = False, logger = []\<rparr>"
        "\<lparr>peercert = Inr None, closed = False\<rparr>" "(''192.0.2.7'', 40000)" _ _
        "[(\<lparr>peercert = Inr None, closed = False\<rparr>, (''192.0.2.7'', 40000)),
          (\<lparr>peercert = Inr (Some [(''subject'', Names [[(''OU'', ''ops'')]])]), closed = False\<rparr>,
           (''192.0.2.8'', 40001)),
          (\<lparr>peercert = Inr (Some [(''notAfter'', Text ''Jan 1'')]), closed = False\<rparr>,
           (''192.0.2.9'', 40002))]"]
  by (simp add: model_defs)

text \<open>
  C8. \<^verbatim>\<open>verify_peer\<close> returns at the first policy field that fails, absent or with another
  value: the reason names that field, and the result is the same whatever fields follow it
  in the policy.
\<close>

theorem verify_peer_short_circuit:
  assumes "get_subject cert = Inr subject"
      and "list_all (field_passes subject) pre"
      and "\<not> field_passes subject (k, e)"
  shows "fst (verify_peer (self\<lparr>verify_fields := Some (pre @ (k, e) # post)\<rparr>) cert) =
           Inr (False,
                Some (if \<not> truthy_value (subject k)
                      then Fmt fmt_field_not_sent [AStr k, ADict subject]
                      else Fmt fmt_field_expected [AStr k, AStr e, ADict subject]))
         \<and> fst (verify_peer (self\<lparr>verify_fields := Some (pre @ (k, e) # post)\<rparr>) cert) =
           fst (verify_peer (self\<lparr>verify_fields := Some (pre @ (k, e) # post')\<rparr>) cert)"
proof -
  have "verify_loop (pre @ (k, e) # rest) subject =
          (False,
           Some (if \<not> truthy_value (subject k)
                 then Fmt fmt_field_not_sent [AStr k, ADict subject]
                 else Fmt fmt_field_expected [AStr k, AStr e, ADict subject]))" for rest
    using verify_loop_passes_prefix [OF assms(2), of "(k, e) # rest"]
      verify_loop_first_failure [OF assms(3), of rest]
    by simp
  then show ?thesis
    by (simp add: verify_peer_result [OF assms(1)])
qed

theorem verify_peer_short_circuit_witness:
  "fst (verify_peer
          \<lparr>verify_fields = Some [(''CN'', ''host''), (''O'', ''Acme''), (''OU'', ''eng'')],
            debug_enabled = False, logger = []\<rparr>
          [(''subject'', Names [[(''CN'', ''host'')], [(''O'', ''Other'')]])])
   = Inr (False, Some (Fmt fmt_field_expected
            [AStr ''O'', AStr ''Acme'', ADict (dict [(''CN'', ''host''), (''O'', ''Other'')])]))
   \<and> fst (verify_peer
          \<lparr>verify_fields = Some [(''CN'', ''host''), (''O'', ''Acme''), (''OU'', ''eng'')],
            debug_enabled = False, logger = []\<rparr>
          [(''subject'', Names [[(''CN'', ''host'')], [(''O'', ''Other'')]])])
   = fst (verify_peer
          \<lparr>verify_fields = Some [(''CN'', ''host''), (''O'', ''Acme'')],
            debug_enabled = False, logger = []\<rparr>
          [(''subject'', Names [[(''CN'', ''host'')], [(''O'', ''Other'')]])])"
  using verify_peer_short_circuit
    [where cert = "[(''subject'', Names [[(''CN'', ''host'')], [(''O'', ''Other'')]])]"
       and subject = "dict [(''CN'', ''host''), (''O'', ''Other'')]"
       and pre = "[(''CN'', ''host'')]" and k = "''O''" and e = "''Acme''"
       and self = "\<lparr>verify_fields = None, debug_enabled = False, logger = []\<rparr>"
       and post = "[(''OU'', ''eng'')]" and post' = "[]"]
  by (auto simp: get_subject_def dict_def field_passes_def truthy_value_def)

text \<open>
  C9, as amended. The result of \<^verbatim>\<open>verify_peer\<close> is a function of the policy and the
  certificate alone: the state of the logger does not enter it. \<^verbatim>\<open>verify_peer\<close> has no
  access to the socket. Its one effect is a debug record of the certificate, handed to
  the logger when the logger is enabled for \<^verbatim>\<open>DEBUG\<close>; otherwise the server is left as it
  was.
\<close>

theorem verify_peer_effects:
  "fst (verify_peer self cert) =
     fst (verify_peer (self\<lparr>debug_enabled := d, logger := l\<rparr>) cert)
   \<and> snd (verify_peer self cert) =
     (if debug_enabled self
      then logger_debug self (Some (Fmt fmt_verify_peer [ACert (Some cert)]))
      else self)"
  by (simp add: verify_peer_def Let_def split: sum.splits option.splits)

theorem verify_peer_effects_witness:
  "fst (verify_peer
          \<lparr>verify_fields = Some [(''O'', ''Acme'')], debug_enabled = False, logger = []\<rparr>
          [(''subject'', Names [[(''O'', ''Acme'')]])])
   = fst (verify_peer
          \<lparr>verify_fields = Some [(''O'', ''Acme'')], debug_enabled = True,
            logger = [(ERROR, None)]\<rparr>
          [(''subject'', Names [[(''O'', ''Acme'')]])])
   \<and> snd (verify_peer
          \<lparr>verify_fields = Some [(''O'', ''Acme'')], debug_enabled = False, logger = []\<rparr>
          [(''subject'', Names [[(''O'', ''Acme'')]])])
   = \<lparr>verify_fields = Some [(''O'', ''Acme'')], debug_enabled = False, logger = []\<rparr>"
  using verify_peer_effects
    [where self = "\<lparr>verify_fields = Some [(''O'', ''Acme'')], debug_enabled = False,
                      logger = []\<rparr>"
       and cert = "[(''subject'', Names [[(''O'', ''Acme'')]])]"
       and d = True and l = "[(ERROR, None)]"]
  by simp

text \<open>
  The claim as stated fails when the logger is enabled for \<^verbatim>\<open>DEBUG\<close>: \<^verbatim>\<open>verify_peer\<close>
  then logs the certificate itself.
\<close>

theorem verify_peer_effects_counterexample:
  "logger (snd (verify_peer
          \<lparr>verify_fields = Some [(''O'', ''Acme'')], debug_enabled = True, logger = []\<rparr>
          [(''subject'', Names [[(''O'', ''Acme'')]])]))
   = [(DEBUG, Some (Fmt fmt_verify_peer
                      [ACert (Some [(''subject'', Names [[(''O'', ''Acme'')]])])]))]
   \<and> snd (verify_peer
          \<lparr>verify_fields = Some [(''O'', ''Acme'')], debug_enabled = True, logger = []\<rparr>
          [(''subject'', Names [[(''O'', ''Acme'')]])])
   \<noteq> \<lparr>verify_fields = Some [(''O'', ''Acme'')], debug_enabled = True, logger = []\<rparr>"
  by (simp add: model_defs)

text \<open>
  C10, as amended. If the subject mapping holds a policy field with the empty string as
  its value, \<^verbatim>\<open>verify_peer\<close> returns \<^verbatim>\<open>False\<close> with a reason, whatever the expected value;
  when every policy field before it in iteration order passes, the reason is that of the
  branch for a missing field and names that field, although the field is in the mapping.
\<close>

theorem verify_peer_falsy_value:
  assumes "verify_fields self = Some (pre @ (k, e) # post)"
      and "get_subject cert = Inr subject"
      and "subject k = Some []"
  shows "k \<in> dom subject \<and>
         (\<exists>r. fst (verify_peer self cert) = Inr (False, Some r)) \<and>
         (list_all (field_passes subject) pre \<longrightarrow>
            fst (verify_peer self cert) =
              Inr (False, Some (Fmt fmt_field_not_sent [AStr k, ADict subject])))"
proof -
  from assms(3) have fails: "\<not> field_passes subject (k, e)"
    by (simp add: field_passes_def truthy_value_def)
  then have "\<not> list_all (field_passes subject) (pre @ (k, e) # post)" by simp
  then have rejected: "\<exists>r. verify_loop (pre @ (k, e) # post) subject = (False, Some r)"
    by (rule verify_loop_some_failure)
  have named: "verify_loop (pre @ (k, e) # post) subject =
                 (False, Some (Fmt fmt_field_not_sent [AStr k, ADict subject]))"
    if "list_all (field_passes subject) pre"
    using that assms(3) verify_loop_passes_prefix [of subject pre "(k, e) # post"]
    by (simp add: truthy_value_def)
  from assms(3) have "k \<in> dom subject" by auto
  with rejected named show ?thesis
    by (simp add: verify_peer_result [OF assms(2) assms(1)])
qed

theorem verify_peer_falsy_value_witness:
  "fst (verify_peer
          \<lparr>verify_fields = Some [(''O'', ''Acme'')], debug_enabled = False, logger = []\<rparr>
          [(''subject'', Names [[(''O'', [])], [(''CN'', ''host'')]])])
   = Inr (False, Some (Fmt fmt_field_not_sent
                         [AStr ''O'', ADict (dict [(''O'', []), (''CN'', ''host'')])]))"
  using verify_peer_falsy_value
    [of "\<lparr>verify_fields = Some [(''O'', ''Acme'')], debug_enabled = False, logger = []\<rparr>"
        "[]" "''O''" "''Acme''" "[]"
        "[(''subject'', Names [[(''O'', [])], [(''CN'', ''host'')]])]"
        "dict [(''O'', []), (''CN'', ''host'')]"]
  by (simp add: get_subject_def dict_def)

text \<open>
  The claim as stated fails where an earlier policy field fails: policy O, OU against a
  subject whose O is Other and whose OU is the empty string. The loop returns at O through
  the branch for a differing value, and the reason is not that OU was not sent.
\<close>

theorem verify_peer_falsy_value_counterexample:
  "dict [(''O'', ''Other''), (''OU'', [])] ''OU'' = Some []
   \<and> fst (verify_peer
          \<lparr>verify_fields = Some [(''O'', ''Acme''), (''OU'', ''eng'')],
            debug_enabled = False, logger = []\<rparr>
          [(''subject'', Names [[(''O'', ''Other'')], [(''OU'', [])]])])
   = Inr (False, Some (Fmt fmt_field_expected
            [AStr ''O'', AStr ''Acme'', ADict (dict [(''O'', ''Other''), (''OU'', [])])]))
   \<and> fst (verify_peer
          \<lparr>verify_fields = Some [(''O'', ''Acme''), (''OU'', ''eng'')],
            debug_enabled = False, logger = []\<rparr>
          [(''subject'', Names [[(''O'', ''Other'')], [(''OU'', [])]])])
   \<noteq> Inr (False, Some (Fmt fmt_field_not_sent
            [AStr ''OU'', ADict (dict [(''O'', ''Other''), (''OU'', [])])]))"
  by (simp add: model_defs)

end
